theory Spec2Isabelle
  imports Complex_Main
begin

section \<open>The trading controller (main_bot.py)\<close>

text \<open>
  Python floats are modelled as exact reals: rounding, overflow and the sign of zero are
  not part of the model. Every exception the loop body can raise by itself is a value of
  \<open>error\<close>; the collaborators of \<open>utils\<close> and \<open>strategy\<close> (balance, data fetch, trends,
  signal, sizing, order placement, closing) are parameters of one iteration, collected in
  the record \<open>env\<close>, and are taken not to raise.
\<close>

datatype error = ZeroDivisionError | IndexError | TypeError | ValueError

subsection \<open>Configuration (config.py)\<close>

definition MAX_TRADES_PER_DAY :: nat where
  "MAX_TRADES_PER_DAY = 5"

definition MAX_CONSECUTIVE_LOSSES :: nat where
  "MAX_CONSECUTIVE_LOSSES = 3"

definition DAILY_DRAWDOWN_LIMIT_PCT :: real where
  "DAILY_DRAWDOWN_LIMIT_PCT = 7.5"

definition TRAILING_STOP_PIPS :: real where
  "TRAILING_STOP_PIPS = 17"

definition RISK_PER_TRADE :: real where
  "RISK_PER_TRADE = 0.01"

definition INSTRUMENTS :: "string list" where
  "INSTRUMENTS = [''EUR_USD'', ''GBP_USD'', ''AUD_USD'', ''USD_CHF'', ''NZD_USD'', ''USD_CAD'']"

subsection \<open>Strings\<close>

definition upper_char :: "char \<Rightarrow> char" where
  "upper_char c =
     (let n = (of_char c :: nat) in if 97 \<le> n \<and> n \<le> 122 then char_of (n - 32) else c)"

definition upper :: "string \<Rightarrow> string" where
  "upper s = map upper_char s"

subsection \<open>Data\<close>

text \<open>The dictionary built at lines 167-176; \<open>None\<close> is Python's None.\<close>

record trade =
  instrument :: string
  side :: string
  entry_price :: real
  units :: real
  order_id :: string
  max_price :: "real option"
  min_price :: "real option"
  take_profit_price :: real

text \<open>
  The local variables of \<open>main_async\<close> that live across iterations. The trade
  dictionaries are mutable objects shared between \<open>open_trades\<close> and its shallow copy, so
  they live in a store \<open>heap\<close> (an address is an index into it) and \<open>open_trades\<close> is the
  list of their addresses.
\<close>

record bot_state =
  daily_trade_count :: nat
  consecutive_losses :: nat
  start_of_day_equity :: "real option"
  last_date :: "nat option"
  heap :: "trade list"
  open_trades :: "nat list"

definition init_state :: bot_state where
  "init_state = \<lparr>daily_trade_count = 0, consecutive_losses = 0, start_of_day_equity = None,
     last_date = None, heap = [], open_trades = []\<rparr>"

text \<open>
  What the M1 pipeline of one instrument yields in one iteration: the number of rows
  fetched, the number of rows left after \<open>apply_indicators\<close> and \<open>dropna\<close>, the last row's
  close, ADX and ATR, and the signal of \<open>generate_combined_signal\<close>.
\<close>

record frame =
  fetched_rows :: nat
  rows :: nat
  close_last :: real
  ADX_last :: real
  ATR_last :: real
  signal :: string

record env =
  now_date :: nat
  now_hour :: nat
  now_weekday :: nat
  balance_reset :: real
  balance_now :: real
  balance_sizing :: "string \<Rightarrow> real"
  fetch :: "string \<Rightarrow> frame"
  get_higher_timeframe_trend :: "string \<Rightarrow> string \<Rightarrow> string"
  calculate_dynamic_position_size :: "real \<Rightarrow> real \<Rightarrow> real \<Rightarrow> real \<Rightarrow> real"
  place_order :: "string \<Rightarrow> string \<Rightarrow> real \<Rightarrow> real \<Rightarrow> real \<Rightarrow> string option"
  refetch_trailing :: "string \<Rightarrow> real option"
  refetch_kill :: "string \<Rightarrow> real option"
  close_fails :: "trade \<Rightarrow> bool"

text \<open>
  The calls the loop makes to the outside, in order: alerts, sleeps, orders, close
  requests, and the error logged at the loop boundary.
\<close>

datatype event =
    Email string
  | Sleep nat
  | PlaceOrder string string real real real
  | Notify trade
  | TrailingClose nat trade real
  | KillSwitchClose "trade list"
  | LogError error

type_synonym latest = "string \<rightharpoonup> real"

subsection \<open>compute_unrealized_pnl\<close>

definition compute_unrealized_pnl :: "trade \<Rightarrow> real \<Rightarrow> real \<Rightarrow> real" where
  "compute_unrealized_pnl trade current_price pip_value =
     (if upper (side trade) = ''BUY''
      then (current_price - entry_price trade) * units trade * pip_value
      else (entry_price trade - current_price) * units trade * pip_value)"

subsection \<open>Per instrument: confirmation, stop and target, order (lines 99-178)\<close>

definition confirm :: "string \<Rightarrow> string \<Rightarrow> string \<Rightarrow> string" where
  "confirm sig trend_M15 trend_M5 =
     (if sig = ''BUY'' \<and> trend_M15 = ''up'' \<and> trend_M5 = ''up'' then ''BUY''
      else if sig = ''SELL'' \<and> trend_M15 = ''down'' \<and> trend_M5 = ''down'' then ''SELL''
      else ''FLAT'')"

definition stop_target :: "string \<Rightarrow> real \<Rightarrow> real \<Rightarrow> real \<times> real" where
  "stop_target confirmed_signal current_price atr_value =
     (let atr_in_pips = atr_value * 10000;
          stop_loss_multiplier = 1.5;
          reward_factor = 2.0;
          stop_loss_pips = atr_in_pips * stop_loss_multiplier
      in if upper confirmed_signal = ''BUY''
         then (current_price - stop_loss_pips * 0.0001,
               current_price + stop_loss_pips * 0.0001 * reward_factor)
         else (current_price + stop_loss_pips * 0.0001,
               current_price - stop_loss_pips * 0.0001 * reward_factor))"

definition new_trade :: "string \<Rightarrow> string \<Rightarrow> real \<Rightarrow> real \<Rightarrow> string \<Rightarrow> real \<Rightarrow> trade" where
  "new_trade inst confirmed_signal current_price position_size oid tp =
     \<lparr>instrument = inst, side = confirmed_signal, entry_price = current_price,
      units = position_size, order_id = oid,
      max_price = (if upper confirmed_signal = ''BUY'' then Some current_price else None),
      min_price = (if upper confirmed_signal = ''SELL'' then Some current_price else None),
      take_profit_price = tp\<rparr>"

definition process_instrument ::
  "env \<Rightarrow> string \<Rightarrow> bot_state \<Rightarrow> latest \<Rightarrow> error option \<times> bot_state \<times> latest \<times> event list" where
  "process_instrument e inst st lp =
     (let df = fetch e inst in
      if fetched_rows df = 0 \<or> fetched_rows df < 50 then (None, st, lp, [])
      else if rows df = 0 then (Some IndexError, st, lp, [])
      else
        let latest_price = close_last df;
            lp' = lp(inst \<mapsto> latest_price)
        in if ADX_last df < 25 then (None, st, lp', [])
           else
             let trend_M15 = get_higher_timeframe_trend e inst ''M15'';
                 trend_M5 = get_higher_timeframe_trend e inst ''M5'';
                 confirmed_signal = confirm (signal df) trend_M15 trend_M5
             in if confirmed_signal = ''BUY'' \<or> confirmed_signal = ''SELL'' then
                  if daily_trade_count st \<ge> MAX_TRADES_PER_DAY
                     \<or> consecutive_losses st \<ge> MAX_CONSECUTIVE_LOSSES
                  then (None, st, lp', [])
                  else
                    let balance = balance_sizing e inst;
                        atr_value = ATR_last df;
                        current_price = latest_price;
                        position_size = calculate_dynamic_position_size e balance
                                          RISK_PER_TRADE atr_value current_price;
                        (stop_loss_price, take_profit_price) =
                           stop_target confirmed_signal current_price atr_value;
                        order = PlaceOrder inst confirmed_signal position_size
                                  stop_loss_price take_profit_price
                    in case place_order e inst confirmed_signal position_size
                              stop_loss_price take_profit_price of
                         None \<Rightarrow> (None, st, lp', [order])
                       | Some oid \<Rightarrow>
                           let open_trade = new_trade inst confirmed_signal current_price
                                              position_size oid take_profit_price
                           in (None,
                               st\<lparr>daily_trade_count := daily_trade_count st + 1,
                                  heap := heap st @ [open_trade],
                                  open_trades := open_trades st @ [length (heap st)]\<rparr>,
                               lp', [order, Notify open_trade])
                else (None, st, lp', []))"

fun instruments_loop ::
  "env \<Rightarrow> string list \<Rightarrow> bot_state \<Rightarrow> latest \<Rightarrow> event list
     \<Rightarrow> error option \<times> bot_state \<times> latest \<times> event list" where
  "instruments_loop e [] st lp evs = (None, st, lp, evs)"
| "instruments_loop e (inst # insts) st lp evs =
     (case process_instrument e inst st lp of
        (Some x, st', lp', ev) \<Rightarrow> (Some x, st', lp', evs @ ev)
      | (None, st', lp', ev) \<Rightarrow> instruments_loop e insts st' lp' (evs @ ev))"

subsection \<open>Trailing stop (lines 180-228)\<close>

definition current_price_of :: "latest \<Rightarrow> (string \<Rightarrow> real option) \<Rightarrow> string \<Rightarrow> real option" where
  "current_price_of lp refetch inst =
     (case lp inst of Some p \<Rightarrow> Some p | None \<Rightarrow> refetch inst)"

text \<open>
  Modelled from the spec: \<open>close_all_trades\<close> of \<open>utils\<close> is not among the sources. It
  asks the broker to close each trade it is given and returns the trades that failed to
  close, the same objects in the same order; \<open>close_fails\<close> says whether the broker fails
  on a trade in this iteration.
\<close>

definition close_all_trades :: "env \<Rightarrow> trade list \<Rightarrow> nat list \<Rightarrow> nat list" where
  "close_all_trades e h ts = filter (\<lambda>a. close_fails e (h ! a)) ts"

text \<open>
  \<open>open_trades.remove(trade)\<close>: the first element equal to the trade (as a dictionary)
  goes; ValueError, here \<open>None\<close>, when there is none.
\<close>

fun list_remove :: "trade list \<Rightarrow> trade \<Rightarrow> nat list \<Rightarrow> nat list option" where
  "list_remove h t [] = None"
| "list_remove h t (a # as) =
     (if h ! a = t then Some as else map_option ((#) a) (list_remove h t as))"

text \<open>
  The evaluation of one trade at the current price: the trade as updated, and whether the
  trailing stop is hit. Comparing a number with None raises TypeError.
\<close>

definition trailing_eval :: "trade \<Rightarrow> real \<Rightarrow> error + (trade \<times> bool)" where
  "trailing_eval trade current_price =
     (if upper (side trade) = ''BUY'' then
        (case max_price trade of
           None \<Rightarrow> Inl TypeError
         | Some m \<Rightarrow>
             let trade1 = (if current_price > m then trade\<lparr>max_price := Some current_price\<rparr>
                           else trade);
                 profit_threshold = (take_profit_price trade1 - entry_price trade1) * 0.35
             in if current_price - entry_price trade1 > profit_threshold then
                  (case max_price trade1 of
                     None \<Rightarrow> Inl TypeError
                   | Some m1 \<Rightarrow>
                       let trailing_stop_level = m1 - TRAILING_STOP_PIPS * 0.0001
                       in Inr (trade1, current_price < trailing_stop_level))
                else Inr (trade1, False))
      else if upper (side trade) = ''SELL'' then
        (case min_price trade of
           None \<Rightarrow> Inl TypeError
         | Some m \<Rightarrow>
             let trade1 = (if current_price < m then trade\<lparr>min_price := Some current_price\<rparr>
                           else trade);
                 profit_threshold = (entry_price trade1 - take_profit_price trade1) * 0.5
             in if entry_price trade1 - current_price > profit_threshold then
                  (case min_price trade1 of
                     None \<Rightarrow> Inl TypeError
                   | Some m1 \<Rightarrow>
                       let trailing_stop_level = m1 + TRAILING_STOP_PIPS * 0.0001
                       in Inr (trade1, current_price > trailing_stop_level))
                else Inr (trade1, False))
      else Inr (trade, False))"

text \<open>The close request of a trailing stop that is hit (lines 199-207 and 218-226).\<close>

definition trailing_close ::
  "env \<Rightarrow> nat \<Rightarrow> trade \<Rightarrow> real \<Rightarrow> bot_state \<Rightarrow> error option \<times> bot_state \<times> event list" where
  "trailing_close e a trade current_price st =
     (let evs = [Email ''Trailing Stop Alert'', TrailingClose a trade current_price]
      in if close_all_trades e (heap st) [a] = [] then
           (case list_remove (heap st) trade (open_trades st) of
              None \<Rightarrow> (Some ValueError, st, evs)
            | Some ots \<Rightarrow>
                let profit = compute_unrealized_pnl trade current_price 0.0001
                in (None,
                    st\<lparr>open_trades := ots,
                       consecutive_losses :=
                         (if profit < 0 then consecutive_losses st + 1 else 0)\<rparr>,
                    evs))
         else (None, st, evs))"

definition trail_trade ::
  "env \<Rightarrow> latest \<Rightarrow> nat \<Rightarrow> bot_state \<Rightarrow> error option \<times> bot_state \<times> event list" where
  "trail_trade e lp a st =
     (let trade = heap st ! a
      in case current_price_of lp (refetch_trailing e) (instrument trade) of
           None \<Rightarrow> (None, st, [])
         | Some current_price \<Rightarrow>
             (case trailing_eval trade current_price of
                Inl x \<Rightarrow> (Some x, st, [])
              | Inr (trade1, hit) \<Rightarrow>
                  let st1 = st\<lparr>heap := (heap st)[a := trade1]\<rparr>
                  in if hit then trailing_close e a trade1 current_price st1
                     else (None, st1, [])))"

fun trailing_loop ::
  "env \<Rightarrow> latest \<Rightarrow> nat list \<Rightarrow> bot_state \<Rightarrow> event list
     \<Rightarrow> error option \<times> bot_state \<times> event list" where
  "trailing_loop e lp [] st evs = (None, st, evs)"
| "trailing_loop e lp (a # as) st evs =
     (case trail_trade e lp a st of
        (Some x, st', ev) \<Rightarrow> (Some x, st', evs @ ev)
      | (None, st', ev) \<Rightarrow> trailing_loop e lp as st' (evs @ ev))"

subsection \<open>Aggregate kill-switch (lines 230-248)\<close>

fun total_unrealized_loss ::
  "env \<Rightarrow> latest \<Rightarrow> trade list \<Rightarrow> nat list \<Rightarrow> real \<Rightarrow> real" where
  "total_unrealized_loss e lp h [] acc = acc"
| "total_unrealized_loss e lp h (a # as) acc =
     (let trade = h ! a
      in case current_price_of lp (refetch_kill e) (instrument trade) of
           None \<Rightarrow> total_unrealized_loss e lp h as acc
         | Some current_price \<Rightarrow>
             let pnl = compute_unrealized_pnl trade current_price 0.0001
             in total_unrealized_loss e lp h as (if pnl < 0 then acc + pnl else acc))"

definition kill_switch ::
  "env \<Rightarrow> latest \<Rightarrow> real \<Rightarrow> bot_state \<Rightarrow> bot_state \<times> event list" where
  "kill_switch e lp sod st =
     (let total = total_unrealized_loss e lp (heap st) (open_trades st) 0;
          daily_loss_limit = sod * (DAILY_DRAWDOWN_LIMIT_PCT / 100)
      in if \<bar>total\<bar> \<ge> daily_loss_limit then
           (st\<lparr>open_trades := close_all_trades e (heap st) (open_trades st)\<rparr>,
            [Email ''Daily Loss Limit Exceeded'',
             KillSwitchClose (map ((!) (heap st)) (open_trades st))])
         else (st, []))"

subsection \<open>One iteration of the loop (lines 58-255)\<close>

text \<open>
  The daily reset and the first use of the start-of-day equity (lines 76-86); the second
  component is the value of the local variable \<open>start_of_day_equity\<close> from then on.
\<close>

definition daily_reset :: "env \<Rightarrow> bot_state \<Rightarrow> bot_state \<times> real" where
  "daily_reset e st =
     (let st1 = (if Some (now_date e) \<noteq> last_date st
                 then st\<lparr>last_date := Some (now_date e), daily_trade_count := 0,
                         consecutive_losses := 0,
                         start_of_day_equity := Some (balance_reset e)\<rparr>
                 else st)
      in case start_of_day_equity st1 of
           None \<Rightarrow> (st1\<lparr>start_of_day_equity := Some (balance_now e)\<rparr>, balance_now e)
         | Some sod \<Rightarrow> (st1, sod))"

text \<open>Steps 4 to 7 of an iteration that passed the gates (lines 95-250).\<close>

definition trade_and_manage ::
  "env \<Rightarrow> real \<Rightarrow> bot_state \<Rightarrow> error option \<times> bot_state \<times> event list" where
  "trade_and_manage e sod st =
     (case instruments_loop e INSTRUMENTS st Map.empty [] of
        (Some x, st1, lp, ev1) \<Rightarrow> (Some x, st1, ev1)
      | (None, st1, lp, ev1) \<Rightarrow>
          (case trailing_loop e lp (open_trades st1) st1 ev1 of
             (Some x, st2, ev2) \<Rightarrow> (Some x, st2, ev2)
           | (None, st2, ev2) \<Rightarrow>
               (case kill_switch e lp sod st2 of
                  (st3, ev3) \<Rightarrow> (None, st3, ev2 @ ev3 @ [Sleep 60]))))"

text \<open>The body of the \<open>try\<close>.\<close>

definition iteration_body :: "env \<Rightarrow> bot_state \<Rightarrow> error option \<times> bot_state \<times> event list" where
  "iteration_body e st =
     (if now_hour e < 6 \<or> now_hour e > 18 then (None, st, [Sleep 300])
      else if now_weekday e \<ge> 5 then (None, st, [Sleep 3600])
      else
        (case daily_reset e st of
           (st1, sod) \<Rightarrow>
             if sod = 0 then (Some ZeroDivisionError, st1, [])
             else
               let current_balance = balance_now e;
                   dd_pct = ((current_balance - sod) / sod) * 100
               in if dd_pct \<le> - DAILY_DRAWDOWN_LIMIT_PCT
                  then (None, st1, [Email ''Daily Drawdown Alert'', Sleep 60])
                  else trade_and_manage e sod st1))"

text \<open>The \<open>try\<close> with its handler: an exception keeps what the body had changed.\<close>

definition iteration :: "env \<Rightarrow> bot_state \<Rightarrow> bot_state \<times> event list" where
  "iteration e st =
     (case iteration_body e st of
        (None, st', evs) \<Rightarrow> (st', evs)
      | (Some x, st', evs) \<Rightarrow> (st', evs @ [LogError x, Email ''Trading Bot Error'', Sleep 60]))"

text \<open>The loop over the iterations whose surroundings are \<open>es\<close>.\<close>

fun run :: "env list \<Rightarrow> bot_state \<Rightarrow> event list \<Rightarrow> bot_state \<times> event list" where
  "run [] st evs = (st, evs)"
| "run (e # es) st evs = (case iteration e st of (st', ev) \<Rightarrow> run es st' (evs @ ev))"

subsection \<open>Concrete surroundings and states\<close>

text \<open>
  A Tuesday at 10:00 UTC: EUR_USD and GBP_USD have data (last closes 1.12 and 1.4), the
  other instruments none; the M1 signal is BUY with ADX \<open>adx\<close>, the M15 trend is up and
  the M5 trend is \<open>t5\<close>; the broker accepts every order and closes every trade.
\<close>

definition ex_frame :: "real \<Rightarrow> real \<Rightarrow> frame" where
  "ex_frame c adx = \<lparr>fetched_rows = 200, rows = 150, close_last = c, ADX_last = adx,
     ATR_last = 0.0010, signal = ''BUY''\<rparr>"

definition ex_env :: "real \<Rightarrow> string \<Rightarrow> env" where
  "ex_env adx t5 =
     \<lparr>now_date = 1, now_hour = 10, now_weekday = 1,
      balance_reset = 10000, balance_now = 9300, balance_sizing = (\<lambda>inst. 9300),
      fetch = (\<lambda>inst. if inst = ''EUR_USD'' then ex_frame 1.12 adx
                       else if inst = ''GBP_USD'' then ex_frame 1.4 10
                       else (ex_frame 1 10)\<lparr>fetched_rows := 0\<rparr>),
      get_higher_timeframe_trend = (\<lambda>inst tf. if tf = ''M15'' then ''up'' else t5),
      calculate_dynamic_position_size = (\<lambda>balance risk atr price. 1000),
      place_order = (\<lambda>inst sd size sl tp. Some ''7''),
      refetch_trailing = (\<lambda>inst. None),
      refetch_kill = (\<lambda>inst. None),
      close_fails = (\<lambda>trade. False)\<rparr>"

text \<open>
  A state of the same day with two open trades: a BUY on EUR_USD from 1.1 with target
  1.13 that has been up to 1.15, and a SELL on GBP_USD from 1.3 with target 1.27.
\<close>

definition ex_buy :: trade where
  "ex_buy = \<lparr>instrument = ''EUR_USD'', side = ''BUY'', entry_price = 1.1, units = 1000,
     order_id = ''5'', max_price = Some 1.15, min_price = None, take_profit_price = 1.13\<rparr>"

definition ex_sell :: trade where
  "ex_sell = \<lparr>instrument = ''GBP_USD'', side = ''SELL'', entry_price = 1.3,
     units = 100000000, order_id = ''6'', max_price = None, min_price = Some 1.3,
     take_profit_price = 1.27\<rparr>"

definition ex_state :: bot_state where
  "ex_state = \<lparr>daily_trade_count = 2, consecutive_losses = 0,
     start_of_day_equity = Some 10000, last_date = Some 1,
     heap = [ex_buy, ex_sell], open_trades = [0, 1]\<rparr>"

section \<open>Properties\<close>

subsection \<open>Evaluation of the string tests and of the stop and target\<close>

lemma upper_BUY: "upper ''BUY'' = ''BUY''"
  by (simp add: upper_def upper_char_def)

lemma upper_SELL: "upper ''SELL'' = ''SELL''"
  by (simp add: upper_def upper_char_def)

lemma stop_target_BUY: "stop_target ''BUY'' p a = (p - 1.5 * a, p + 3.0 * a)"
  by (simp add: stop_target_def Let_def upper_BUY)

lemma stop_target_SELL: "stop_target ''SELL'' p a = (p + 1.5 * a, p - 3.0 * a)"
  by (simp add: stop_target_def Let_def upper_SELL)

subsection \<open>The claims on the confirmation gate and on the stop and target\<close>

text \<open>
  C4. The confirmed decision is BUY exactly when the base signal is BUY and both the M15
  and the M5 trend are up, SELL exactly when the base signal is SELL and both trends are
  down, and FLAT in every other case (so for BUY, up, down); with a FLAT decision the
  instrument's step places no order and leaves the controller's state as it was.
\<close>

theorem confirm_gate:
  "(confirm sig t15 t5 = ''BUY'' \<longleftrightarrow> sig = ''BUY'' \<and> t15 = ''up'' \<and> t5 = ''up'')
   \<and> (confirm sig t15 t5 = ''SELL'' \<longleftrightarrow> sig = ''SELL'' \<and> t15 = ''down'' \<and> t5 = ''down'')
   \<and> (confirm sig t15 t5 = ''FLAT'' \<longleftrightarrow>
        \<not> (sig = ''BUY'' \<and> t15 = ''up'' \<and> t5 = ''up'')
        \<and> \<not> (sig = ''SELL'' \<and> t15 = ''down'' \<and> t5 = ''down''))
   \<and> confirm ''BUY'' ''up'' ''down'' = ''FLAT''
   \<and> (confirm (signal (fetch e inst)) (get_higher_timeframe_trend e inst ''M15'')
          (get_higher_timeframe_trend e inst ''M5'') = ''FLAT''
        \<longrightarrow> (\<exists>x lp'. process_instrument e inst st lp = (x, st, lp', [])))"
  by (simp add: confirm_def process_instrument_def Let_def)

theorem confirm_gate_witness:
  "confirm (signal (fetch (ex_env 30 ''down'') ''EUR_USD''))
      (get_higher_timeframe_trend (ex_env 30 ''down'') ''EUR_USD'' ''M15'')
      (get_higher_timeframe_trend (ex_env 30 ''down'') ''EUR_USD'' ''M5'') = ''FLAT''
   \<and> (\<exists>x lp'. process_instrument (ex_env 30 ''down'') ''EUR_USD'' ex_state Map.empty
                 = (x, ex_state, lp', []))"
proof -
  have flat: "confirm (signal (fetch (ex_env 30 ''down'') ''EUR_USD''))
      (get_higher_timeframe_trend (ex_env 30 ''down'') ''EUR_USD'' ''M15'')
      (get_higher_timeframe_trend (ex_env 30 ''down'') ''EUR_USD'' ''M5'') = ''FLAT''"
    by (simp add: confirm_def ex_env_def ex_frame_def)
  with confirm_gate [of "''BUY''" "''up''" "''down''" "ex_env 30 ''down''" "''EUR_USD''"
      ex_state Map.empty]
  show ?thesis by blast
qed

text \<open>
  C6. Every order the controller places carries the stop and the target computed from the
  last close \<open>p\<close> and the last ATR \<open>a\<close> of the instrument: for BUY the stop is
  \<open>p - 1.5 a\<close> and the target \<open>p + 3.0 a\<close>, for SELL the stop is \<open>p + 1.5 a\<close> and the
  target \<open>p - 3.0 a\<close>; a BUY from 1.1000 with ATR 0.0010 has stop 1.0985 and target 1.1030.
  The registered trade has \<open>p\<close> as entry price and the same target.
\<close>

theorem stop_target_prices:
  "stop_target ''BUY'' p a = (p - 1.5 * a, p + 3.0 * a)
   \<and> stop_target ''SELL'' p a = (p + 1.5 * a, p - 3.0 * a)
   \<and> stop_target ''BUY'' 1.1000 0.0010 = (1.0985, 1.1030)
   \<and> (process_instrument e inst st lp = (x, st', lp', evs)
        \<and> PlaceOrder i sd sz sl tp \<in> set evs
      \<longrightarrow> (sd = ''BUY'' \<or> sd = ''SELL'')
          \<and> (sl, tp) = stop_target sd (close_last (fetch e inst)) (ATR_last (fetch e inst))
          \<and> (\<forall>t. Notify t \<in> set evs \<longrightarrow>
                entry_price t = close_last (fetch e inst) \<and> take_profit_price t = tp))"
proof -
  have c: "stop_target ''BUY'' 1.1000 0.0010 = (1.0985, 1.1030)"
    by (simp add: stop_target_BUY)
  have d: "(sd = ''BUY'' \<or> sd = ''SELL'')
          \<and> (sl, tp) = stop_target sd (close_last (fetch e inst)) (ATR_last (fetch e inst))
          \<and> (\<forall>t. Notify t \<in> set evs \<longrightarrow>
                entry_price t = close_last (fetch e inst) \<and> take_profit_price t = tp)"
    if "process_instrument e inst st lp = (x, st', lp', evs)"
      and "PlaceOrder i sd sz sl tp \<in> set evs"
    using that
    by (auto simp: process_instrument_def Let_def new_trade_def
          split: if_splits option.splits prod.splits)
  from stop_target_BUY [of p a] stop_target_SELL [of p a] c d show ?thesis by blast
qed

theorem stop_target_prices_witness:
  "process_instrument (ex_env 30 ''up'') ''EUR_USD'' ex_state Map.empty
     = (None,
        ex_state\<lparr>daily_trade_count := 3,
          heap := [ex_buy, ex_sell, new_trade ''EUR_USD'' ''BUY'' 1.12 1000 ''7'' 1.123],
          open_trades := [0, 1, 2]\<rparr>,
        [''EUR_USD'' \<mapsto> 1.12],
        [PlaceOrder ''EUR_USD'' ''BUY'' 1000 1.1185 1.123,
         Notify (new_trade ''EUR_USD'' ''BUY'' 1.12 1000 ''7'' 1.123)])
   \<and> (1.1185, 1.123) = stop_target ''BUY'' 1.12 0.0010"
proof -
  have run: "process_instrument (ex_env 30 ''up'') ''EUR_USD'' ex_state Map.empty
     = (None,
        ex_state\<lparr>daily_trade_count := 3,
          heap := [ex_buy, ex_sell, new_trade ''EUR_USD'' ''BUY'' 1.12 1000 ''7'' 1.123],
          open_trades := [0, 1, 2]\<rparr>,
        [''EUR_USD'' \<mapsto> 1.12],
        [PlaceOrder ''EUR_USD'' ''BUY'' 1000 1.1185 1.123,
         Notify (new_trade ''EUR_USD'' ''BUY'' 1.12 1000 ''7'' 1.123)])"
    by (simp add: process_instrument_def Let_def ex_env_def ex_frame_def confirm_def
          stop_target_BUY ex_state_def MAX_TRADES_PER_DAY_def MAX_CONSECUTIVE_LOSSES_def
          RISK_PER_TRADE_def)
  have "PlaceOrder ''EUR_USD'' ''BUY'' 1000 1.1185 1.123
          \<in> set [PlaceOrder ''EUR_USD'' ''BUY'' 1000 1.1185 1.123,
                 Notify (new_trade ''EUR_USD'' ''BUY'' 1.12 1000 ''7'' 1.123)]"
    by simp
  with run stop_target_prices [where e = "ex_env 30 ''up''" and inst = "''EUR_USD''"
      and st = ex_state and lp = Map.empty and sd = "''BUY''" and sl = "1.1185"
      and tp = "1.123"]
  have "(1.1185, 1.123) = stop_target ''BUY'' (close_last (fetch (ex_env 30 ''up'') ''EUR_USD''))
      (ATR_last (fetch (ex_env 30 ''up'') ''EUR_USD''))"
    by blast
  then have "(1.1185, 1.123) = stop_target ''BUY'' 1.12 0.0010"
    by (simp add: ex_env_def ex_frame_def)
  with run show ?thesis by blast
qed

end
